theory Spec2Isabelle
  imports Complex_Main "HOL-Library.AList" "HOL-Library.Sublist"
begin

section \<open>Values, documents and errors\<close>

text \<open>
  The pipeline of \<^verbatim>\<open>analytics_interview.py\<close> handles untyped JSON: whatever
  \<^verbatim>\<open>json.loads\<close> returns is passed on with \<^verbatim>\<open>dict.get\<close>. A value is therefore a
  tree. Python's \<^verbatim>\<open>int\<close> and \<^verbatim>\<open>float\<close> compare equal when they denote the same number
  (\<^verbatim>\<open>1 == 1.0\<close>), in Python as in the document store, so both are one constructor
  \<open>JNum\<close> over the reals; rounding, infinities and NaN of IEEE doubles are outside the
  model. A Python \<^verbatim>\<open>dict\<close> is an association list read with \<open>map_of\<close>.
\<close>

datatype json =
    JNull
  | JBool bool
  | JNum real
  | JStr string
  | JArr "json list"
  | JObj "(string \<times> json) list"

type_synonym document = "(string \<times> json) list"

datatype error = JSONDecodeError | AttributeError | TypeError | ValueError | KeyError

text \<open>
  Three library routines are called by the program and are not part of it: the JSON
  decoder, the \<^verbatim>\<open>float\<close> constructor on strings and
  \<^verbatim>\<open>datetime.strptime(s, "%Y-%m-%dT%H:%M:%S.%fZ").timestamp()\<close> truncated by
  \<^verbatim>\<open>int\<close>. They are parameters of the model; \<open>None\<close> is the exception each raises on a
  string it rejects.
\<close>

record runtime =
  json_decode :: "string \<Rightarrow> json option"
  float_parse :: "string \<Rightarrow> real option"
  strptime_epoch :: "string \<Rightarrow> int option"

definition bindE :: "error + 'a \<Rightarrow> ('a \<Rightarrow> error + 'b) \<Rightarrow> error + 'b" where
  "bindE m f = (case m of Inl e \<Rightarrow> Inl e | Inr x \<Rightarrow> f x)"

text \<open>\<^verbatim>\<open>x.get(k, dflt)\<close>: only a dict has the method.\<close>

fun dict_get :: "json \<Rightarrow> string \<Rightarrow> json \<Rightarrow> error + json" where
  "dict_get (JObj kvs) k dflt = Inr (case map_of kvs k of None \<Rightarrow> dflt | Some v \<Rightarrow> v)"
| "dict_get _ k dflt = Inl AttributeError"

text \<open>\<^verbatim>\<open>json.loads(x)\<close>: a non-string argument is a \<^verbatim>\<open>TypeError\<close>.\<close>

fun loads :: "runtime \<Rightarrow> json \<Rightarrow> error + json" where
  "loads rt (JStr s) =
     (case json_decode rt s of None \<Rightarrow> Inl JSONDecodeError | Some v \<Rightarrow> Inr v)"
| "loads rt _ = Inl TypeError"

text \<open>
  \<^verbatim>\<open>s.replace(old, new)\<close> on strings: occurrences are replaced from the left and do not
  overlap; with an empty \<open>old\<close>, \<open>new\<close> is put before every character and at the end.
\<close>

function replace_from :: "string \<Rightarrow> string \<Rightarrow> string \<Rightarrow> string" where
  "replace_from old new [] = []"
| "replace_from old new (c # cs) =
     (if old \<noteq> [] \<and> prefix old (c # cs)
      then new @ replace_from old new (drop (length old) (c # cs))
      else c # replace_from old new cs)"
  by pat_completeness auto
termination
  by (relation "measure (\<lambda>(old, new, s). length s)") auto

definition str_replace :: "string \<Rightarrow> string \<Rightarrow> string \<Rightarrow> string" where
  "str_replace s old new =
     (if old = [] then new @ concat (map (\<lambda>c. c # new) s) else replace_from old new s)"

fun replace :: "json \<Rightarrow> string \<Rightarrow> string \<Rightarrow> error + string" where
  "replace (JStr s) old new = Inr (str_replace s old new)"
| "replace _ old new = Inl AttributeError"

definition float :: "runtime \<Rightarrow> string \<Rightarrow> error + real" where
  "float rt s = (case float_parse rt s of None \<Rightarrow> Inl ValueError | Some r \<Rightarrow> Inr r)"

text \<open>Truth value of a Python object in \<^verbatim>\<open>if time\<close>.\<close>

fun truthy :: "json \<Rightarrow> bool" where
  "truthy JNull = False"
| "truthy (JBool b) = b"
| "truthy (JNum r) = (r \<noteq> 0)"
| "truthy (JStr s) = (s \<noteq> [])"
| "truthy (JArr xs) = (xs \<noteq> [])"
| "truthy (JObj kvs) = (kvs \<noteq> [])"

fun strptime :: "runtime \<Rightarrow> json \<Rightarrow> error + int" where
  "strptime rt (JStr s) =
     (case strptime_epoch rt s of None \<Rightarrow> Inl ValueError | Some t \<Rightarrow> Inr t)"
| "strptime rt _ = Inl TypeError"

section \<open>parse_and_insert\<close>

text \<open>Line 31: the nested document, \<^verbatim>\<open>json.loads(data.get("bidRequestString", "{}"))\<close>.\<close>

definition nested_document :: "runtime \<Rightarrow> json \<Rightarrow> error + json" where
  "nested_document rt data =
     bindE (dict_get data ''bidRequestString'' (JStr ''{}'')) (loads rt)"

text \<open>Lines 35 to 45: the country, and the criteria id when the country is "Others".\<close>

definition resolve_geo :: "json \<Rightarrow> error + json" where
  "resolve_geo bid_request_string =
     bindE (bindE (bindE (dict_get bid_request_string ''device'' (JObj []))
              (\<lambda>device. dict_get device ''geo'' (JObj [])))
              (\<lambda>g. dict_get g ''country'' (JStr ''Others''))) (\<lambda>geo.
     if geo = JStr ''Others''
     then bindE (bindE (dict_get bid_request_string ''device'' (JObj []))
            (\<lambda>device. dict_get device ''ext'' (JObj [])))
            (\<lambda>ext. dict_get ext ''geo_criteria_id'' (JStr ''Others''))
     else Inr geo)"

text \<open>Line 47: \<^verbatim>\<open>float(data.get("winPrice", "0").replace("USD/1M", ""))\<close>.\<close>

definition parse_price :: "runtime \<Rightarrow> json \<Rightarrow> error + real" where
  "parse_price rt data =
     bindE (bindE (dict_get data ''winPrice'' (JStr ''0''))
              (\<lambda>w. replace w ''USD/1M'' '''')) (float rt)"

text \<open>Lines 48 to 53: the timestamp, 0 when the field is absent or falsy.\<close>

definition parse_time :: "runtime \<Rightarrow> json \<Rightarrow> error + int" where
  "parse_time rt bid_request_string =
     bindE (dict_get bid_request_string ''timestamp'' JNull) (\<lambda>time.
     if truthy time then strptime rt time else Inr 0)"

text \<open>
  The body of the \<^verbatim>\<open>try\<close> block up to the dict literal, for one line: the document to
  insert, or the exception raised on the way, in the order of the source.
\<close>

definition normalize :: "runtime \<Rightarrow> string \<Rightarrow> error + document" where
  "normalize rt line =
    bindE (loads rt (JStr line)) (\<lambda>data.
    bindE (dict_get data ''auctionId'' (JStr ''NA'')) (\<lambda>auction_id.
    bindE (dict_get data ''biddingMainAccount'' (JStr ''NA'')) (\<lambda>campaign_id.
    bindE (dict_get data ''bidResponseCreativeName'' (JStr ''NA'')) (\<lambda>creative_id.
    bindE (dict_get data ''biddingSubAccount'' (JStr ''NA'')) (\<lambda>adgroup_id.
    bindE (nested_document rt data) (\<lambda>bid_request_string.
    bindE (dict_get bid_request_string ''userAgent'' (JStr ''Others'')) (\<lambda>user_agent.
    bindE (dict_get bid_request_string ''url'' (JStr ''Others'')) (\<lambda>site.
    bindE (resolve_geo bid_request_string) (\<lambda>geo.
    bindE (dict_get bid_request_string ''exchange'' (JStr ''Others'')) (\<lambda>exchange.
    bindE (parse_price rt data) (\<lambda>price.
    bindE (parse_time rt bid_request_string) (\<lambda>time.
    Inr [(''auctionId'', auction_id),
         (''campaignId'', campaign_id),
         (''creativeId'', creative_id),
         (''adgroupId'', adgroup_id),
         (''userAgent'', user_agent),
         (''site'', site),
         (''geo'', geo),
         (''exchange'', exchange),
         (''price'', JNum price),
         (''time'', JNum (of_int time))]))))))))))))"

text \<open>
  The \<^verbatim>\<open>for\<close> loop over the lines of the file. The state is the buffer \<open>documents\<close> and
  the collection, kept as the list of \<^verbatim>\<open>insert_many\<close> calls it has received, each with
  the batch it carried. A \<^verbatim>\<open>JSONDecodeError\<close> is caught and the loop continues; any other
  exception leaves the loop, with the collection as the calls made so far left it. The
  result is the exception if one escaped, the buffer and the collection when the loop is
  left.
\<close>

fun ingest_loop ::
  "runtime \<Rightarrow> int \<Rightarrow> string list \<Rightarrow> document list \<Rightarrow> document list list
     \<Rightarrow> error option \<times> document list \<times> document list list" where
  "ingest_loop rt batch_size [] documents collection = (None, documents, collection)"
| "ingest_loop rt batch_size (line # rest) documents collection =
     (case normalize rt line of
        Inl e \<Rightarrow>
          (if e = JSONDecodeError then ingest_loop rt batch_size rest documents collection
           else (Some e, documents, collection))
      | Inr document \<Rightarrow>
          (let documents' = documents @ [document] in
           if int (length documents') \<ge> batch_size
           then ingest_loop rt batch_size rest [] (collection @ [documents'])
           else ingest_loop rt batch_size rest documents' collection))"

text \<open>
  \<^verbatim>\<open>parse_and_insert\<close>: the buffer starts empty, and the function returns when the loop
  ends. The source has no statement after the loop, so the buffer is a local variable
  that is discarded; what the caller can observe is the exception, if any, and the
  collection.
\<close>

definition parse_and_insert ::
  "runtime \<Rightarrow> string list \<Rightarrow> document list list \<Rightarrow> int
     \<Rightarrow> error option \<times> document list list" where
  "parse_and_insert rt lines collection batch_size =
     (case ingest_loop rt batch_size lines [] collection of
        (outcome, documents, collection') \<Rightarrow> (outcome, collection'))"

text \<open>The contents of a collection: the documents of all calls, in order.\<close>

definition contents :: "document list list \<Rightarrow> document list" where
  "contents collection = concat collection"

section \<open>aggregate_and_upsert\<close>

text \<open>
  The pipeline is data handed to the store; its two stages are modelled by what they
  compute. \<^verbatim>\<open>$group\<close> keeps one set of accumulators per value of \<^verbatim>\<open>_id\<close>, the
  sub-document built from \<open>group_key\<close> (a field the document lacks is left out of it),
  and feeds every document of the collection to the accumulators of its group.
  \<^verbatim>\<open>$sum\<close> over \<^verbatim>\<open>$price\<close> adds the numeric values and ignores the others,
  \<^verbatim>\<open>$min\<close> and \<^verbatim>\<open>$max\<close> yield null when no value was seen, and \<^verbatim>\<open>{"$sum": 1}\<close>
  counts. The store's ordering between values of different types, which \<^verbatim>\<open>$min\<close> and
  \<^verbatim>\<open>$max\<close> would use on a price that is not a number, is not modelled: such a price is
  skipped. The groups are emitted in the order in which their first document was met;
  the store promises no order.
\<close>

definition group_key :: "(string \<times> string) list" where
  "group_key = [(''campaignId'', ''campaignId''),
                (''creativeId'', ''creativeId''),
                (''adgroupId'', ''adgroupId''),
                (''geo'', ''geo''),
                (''time'', ''time'')]"

definition group_id :: "document \<Rightarrow> document" where
  "group_id doc =
     concat (map (\<lambda>(name, path). case map_of doc path of None \<Rightarrow> [] | Some v \<Rightarrow> [(name, v)])
               group_key)"

definition number :: "json option \<Rightarrow> real option" where
  "number v = (case v of Some (JNum r) \<Rightarrow> Some r | _ \<Rightarrow> None)"

record accumulators =
  totalPrice :: real
  minPrice :: "real option"
  maxPrice :: "real option"
  totalCount :: nat

definition no_documents :: accumulators where
  "no_documents = \<lparr>totalPrice = 0, minPrice = None, maxPrice = None, totalCount = 0\<rparr>"

definition accumulate :: "accumulators \<Rightarrow> document \<Rightarrow> accumulators" where
  "accumulate acc doc =
     (case number (map_of doc ''price'') of
        None \<Rightarrow> acc\<lparr>totalCount := totalCount acc + 1\<rparr>
      | Some p \<Rightarrow>
          \<lparr>totalPrice = totalPrice acc + p,
           minPrice = (case minPrice acc of None \<Rightarrow> Some p | Some m \<Rightarrow> Some (min m p)),
           maxPrice = (case maxPrice acc of None \<Rightarrow> Some p | Some m \<Rightarrow> Some (max m p)),
           totalCount = totalCount acc + 1\<rparr>)"

definition group_step ::
  "(document \<times> accumulators) list \<Rightarrow> document \<Rightarrow> (document \<times> accumulators) list" where
  "group_step groups doc =
     (case map_of groups (group_id doc) of
        None \<Rightarrow> groups @ [(group_id doc, accumulate no_documents doc)]
      | Some acc \<Rightarrow> AList.update (group_id doc) (accumulate acc doc) groups)"

definition group_stage :: "document list \<Rightarrow> (document \<times> accumulators) list" where
  "group_stage docs = foldl group_step [] docs"

text \<open>
  \<^verbatim>\<open>$project\<close>: the four accumulated fields are kept, \<^verbatim>\<open>_id\<close> is dropped and each of
  its five fields is lifted to the top level, when \<^verbatim>\<open>_id\<close> has it.
\<close>

definition optional_number :: "real option \<Rightarrow> json" where
  "optional_number v = (case v of None \<Rightarrow> JNull | Some r \<Rightarrow> JNum r)"

definition project_stage :: "document \<times> accumulators \<Rightarrow> document" where
  "project_stage g =
     (case g of (gid, acc) \<Rightarrow>
        [(''totalPrice'', JNum (totalPrice acc)),
         (''minPrice'', optional_number (minPrice acc)),
         (''maxPrice'', optional_number (maxPrice acc)),
         (''totalCount'', JNum (of_nat (totalCount acc)))]
        @ concat (map (\<lambda>name. case map_of gid name of None \<Rightarrow> [] | Some v \<Rightarrow> [(name, v)])
                    [''campaignId'', ''creativeId'', ''adgroupId'', ''geo'', ''time'']))"

definition aggregate :: "document list \<Rightarrow> document list" where
  "aggregate source_collection = map project_stage (group_stage source_collection)"

text \<open>\<^verbatim>\<open>doc[k]\<close>: a missing key is a \<^verbatim>\<open>KeyError\<close>.\<close>

definition subscript :: "document \<Rightarrow> string \<Rightarrow> error + json" where
  "subscript doc k = (case map_of doc k of None \<Rightarrow> Inl KeyError | Some v \<Rightarrow> Inr v)"

text \<open>\<^verbatim>\<open>UpdateOne(filter_query, {"$set": ...}, upsert=True)\<close>.\<close>

record update_one =
  filter_query :: document
  set_fields :: document

definition operation :: "document \<Rightarrow> error + update_one" where
  "operation doc =
     bindE (subscript doc ''campaignId'') (\<lambda>campaign_id.
     bindE (subscript doc ''creativeId'') (\<lambda>creative_id.
     bindE (subscript doc ''adgroupId'') (\<lambda>adgroup_id.
     bindE (subscript doc ''geo'') (\<lambda>geo.
     bindE (subscript doc ''time'') (\<lambda>time.
     bindE (subscript doc ''totalPrice'') (\<lambda>total_price.
     bindE (subscript doc ''minPrice'') (\<lambda>min_price.
     bindE (subscript doc ''maxPrice'') (\<lambda>max_price.
     bindE (subscript doc ''totalCount'') (\<lambda>total_count.
     Inr \<lparr>filter_query =
            [(''campaignId'', campaign_id),
             (''creativeId'', creative_id),
             (''adgroupId'', adgroup_id),
             (''geo'', geo),
             (''time'', time)],
          set_fields =
            [(''totalPrice'', total_price),
             (''minPrice'', min_price),
             (''maxPrice'', max_price),
             (''totalCount'', total_count)]\<rparr>)))))))))"

text \<open>The loop over the result, appending to \<open>bulk_operations\<close>.\<close>

fun operations :: "document list \<Rightarrow> update_one list \<Rightarrow> error + update_one list" where
  "operations [] bulk_operations = Inr bulk_operations"
| "operations (doc # result) bulk_operations =
     bindE (operation doc) (\<lambda>op. operations result (bulk_operations @ [op]))"

text \<open>
  The store's side of one \<^verbatim>\<open>UpdateOne\<close> with upsert. A document matches the filter when
  it has each of the filter's fields with the filter's value. The first matching
  document, in the order of the collection, gets the fields of \<^verbatim>\<open>$set\<close>; when none
  matches, a document made of the filter's fields and then the \<^verbatim>\<open>$set\<close> fields is
  inserted. The \<^verbatim>\<open>_id\<close> the store gives to an inserted document is left out.
\<close>

definition matches :: "document \<Rightarrow> document \<Rightarrow> bool" where
  "matches query doc = list_all (\<lambda>(k, v). map_of doc k = Some v) query"

definition apply_set :: "document \<Rightarrow> document \<Rightarrow> document" where
  "apply_set updates doc = foldl (\<lambda>d (k, v). AList.update k v d) doc updates"

fun upsert :: "update_one \<Rightarrow> document list \<Rightarrow> document list" where
  "upsert op [] = [apply_set (set_fields op) (filter_query op)]"
| "upsert op (doc # docs) =
     (if matches (filter_query op) doc then apply_set (set_fields op) doc # docs
      else doc # upsert op docs)"

definition bulk_write :: "update_one list \<Rightarrow> document list \<Rightarrow> document list" where
  "bulk_write bulk_operations collection = foldl (\<lambda>c op. upsert op c) collection bulk_operations"

text \<open>
  \<^verbatim>\<open>aggregate_and_upsert\<close>: the new state of the target collection, or the exception
  raised while the operations were built (nothing has been written then).
\<close>

definition aggregate_and_upsert :: "document list \<Rightarrow> document list \<Rightarrow> error + document list" where
  "aggregate_and_upsert source_collection target_collection =
     bindE (operations (aggregate source_collection) []) (\<lambda>bulk_operations.
     Inr (if bulk_operations \<noteq> [] then bulk_write bulk_operations target_collection
          else target_collection))"

section \<open>Notions used in the statements\<close>

text \<open>The ten keys of a normalized record, in the order of the dict literal.\<close>

definition record_fields :: "string list" where
  "record_fields = [''auctionId'', ''campaignId'', ''creativeId'', ''adgroupId'',
     ''userAgent'', ''site'', ''geo'', ''exchange'', ''price'', ''time'']"

text \<open>
  The value found in a nested document by following a path of keys, \<open>None\<close> when a key
  on the way is absent or the value there is not an object.
\<close>

fun path_lookup :: "json \<Rightarrow> string list \<Rightarrow> json option" where
  "path_lookup v [] = Some v"
| "path_lookup (JObj kvs) (k # ks) =
     (case map_of kvs k of None \<Rightarrow> None | Some v \<Rightarrow> path_lookup v ks)"
| "path_lookup _ (k # ks) = None"

text \<open>
  The fallback chain as the specification words it: a lookup yields "Others" when the
  path is absent; the country is taken unless it is "Others", and then the criteria id.
\<close>

definition lookup_or_others :: "json \<Rightarrow> string list \<Rightarrow> json" where
  "lookup_or_others nested path =
     (case path_lookup nested path of None \<Rightarrow> JStr ''Others'' | Some v \<Rightarrow> v)"

definition geo_fallback :: "json \<Rightarrow> json" where
  "geo_fallback nested =
     (if lookup_or_others nested [''device'', ''geo'', ''country''] \<noteq> JStr ''Others''
      then lookup_or_others nested [''device'', ''geo'', ''country'']
      else lookup_or_others nested [''device'', ''ext'', ''geo_criteria_id''])"

section \<open>Sample inputs\<close>

text \<open>
  A table of the library routines on the few strings used in the examples below; every
  entry is what CPython returns on that string, and a string outside the table is
  rejected. \<open>envelope s\<close> is the line whose only field is \<^verbatim>\<open>bidRequestString\<close> with
  the JSON text \<open>s\<close> as its value: inside the string literal every double quote of \<open>s\<close>
  is escaped with a backslash.
\<close>

definition escape :: "string \<Rightarrow> string" where
  "escape s = concat (map (\<lambda>c. if c = CHR 0x22 then [CHR 0x5C, c] else [c]) s)"

definition envelope :: "string \<Rightarrow> string" where
  \<open>envelope s = ''{"bidRequestString": "'' @ escape s @ ''"}''\<close>

definition sample_decode :: "string \<Rightarrow> json option" where
  \<open>sample_decode s =
     (if s = ''{}'' then Some (JObj [])
      else if s = ''{"auctionId": "a1"}'' then Some (JObj [(''auctionId'', JStr ''a1'')])
      else if s = ''{"winPrice": "abcUSD/1M"}''
        then Some (JObj [(''winPrice'', JStr ''abcUSD/1M'')])
      else if s = ''{"timestamp": "yesterday"}''
        then Some (JObj [(''timestamp'', JStr ''yesterday'')])
      else if s = ''{"device": {"ext": {"geo_criteria_id": "1009"}}}''
        then Some (JObj [(''device'',
               JObj [(''ext'', JObj [(''geo_criteria_id'', JStr ''1009'')])])])
      else if s = ''{"device": {"geo": {"country": "US"}, "ext": 5}}''
        then Some (JObj [(''device'',
               JObj [(''geo'', JObj [(''country'', JStr ''US'')]), (''ext'', JNum 5)])])
      else if s = envelope ''''
        then Some (JObj [(''bidRequestString'', JStr '''')])
      else if s = envelope ''x''
        then Some (JObj [(''bidRequestString'', JStr ''x'')])
      else if s = envelope ''{"timestamp": "yesterday"}''
        then Some (JObj [(''bidRequestString'', JStr ''{"timestamp": "yesterday"}'')])
      else if s = envelope ''{"device": {"ext": {"geo_criteria_id": "1009"}}}''
        then Some (JObj [(''bidRequestString'',
               JStr ''{"device": {"ext": {"geo_criteria_id": "1009"}}}'')])
      else if s = envelope ''{"device": {"geo": {"country": "US"}, "ext": 5}}''
        then Some (JObj [(''bidRequestString'',
               JStr ''{"device": {"geo": {"country": "US"}, "ext": 5}}'')])
      else None)\<close>

definition sample_float :: "string \<Rightarrow> real option" where
  "sample_float s = (if s = ''0'' then Some 0 else None)"

definition sample_rt :: runtime where
  "sample_rt = \<lparr>json_decode = sample_decode, float_parse = sample_float,
                strptime_epoch = (\<lambda>s. None)\<rparr>"

section \<open>Properties of parse_and_insert\<close>

lemma bindE_Inl [simp]: "bindE (Inl e) f = Inl e"
  by (simp add: bindE_def)

lemma bindE_Inr [simp]: "bindE (Inr x) f = f x"
  by (simp add: bindE_def)

lemma bindE_eq_Inr: "bindE m f = Inr y \<longleftrightarrow> (\<exists>x. m = Inr x \<and> f x = Inr y)"
  by (cases m) simp_all

text \<open>The loop on a concatenation: the second part starts from the state the first left.\<close>

lemma ingest_loop_append:
  "ingest_loop rt B (xs @ ys) docs coll =
     (case ingest_loop rt B xs docs coll of
        (outcome, docs', coll') \<Rightarrow>
          (case outcome of None \<Rightarrow> ingest_loop rt B ys docs' coll'
           | Some e \<Rightarrow> (Some e, docs', coll')))"
  by (induction xs arbitrary: docs coll) (auto simp: Let_def split: sum.splits)

lemma ingest_loop_skip:
  "normalize rt line = Inl JSONDecodeError \<Longrightarrow>
     ingest_loop rt B (xs @ line # ys) docs coll = ingest_loop rt B (xs @ ys) docs coll"
  by (simp add: ingest_loop_append split: prod.splits option.splits)

lemma ingest_loop_raise:
  "normalize rt line = Inl e \<Longrightarrow> e \<noteq> JSONDecodeError \<Longrightarrow>
   ingest_loop rt B xs docs coll = (None, docs', coll') \<Longrightarrow>
     ingest_loop rt B (xs @ line # ys) docs coll = (Some e, docs', coll')"
  by (simp add: ingest_loop_append)

lemma normalize_fields: "normalize rt line = Inr doc \<Longrightarrow> map fst doc = record_fields"
  by (auto simp: normalize_def bindE_eq_Inr record_fields_def)

text \<open>
  With a positive batch size \<open>b\<close> and a buffer shorter than \<open>b\<close>, lines that all
  normalize add full batches only: what is left over stays in the buffer.
\<close>

lemma ingest_loop_batches:
  "0 < b \<Longrightarrow> length docs < b \<Longrightarrow> map (normalize rt) lines = map Inr ds \<Longrightarrow>
   \<exists>buf new. ingest_loop rt (int b) lines docs coll = (None, buf, coll @ new)
      \<and> concat new @ buf = docs @ ds
      \<and> length new = (length docs + length ds) div b
      \<and> length buf = (length docs + length ds) mod b
      \<and> (\<forall>batch \<in> set new. length batch = b)"
proof (induction lines arbitrary: docs coll ds)
  case Nil
  then show ?case by simp
next
  case (Cons l ls)
  from Cons.prems(3) obtain d ds' where ds: "ds = d # ds'" and d: "normalize rt l = Inr d"
    and rest: "map (normalize rt) ls = map Inr ds'"
    by (cases ds) auto
  show ?case
  proof (cases "Suc (length docs) = b")
    case True
    from Cons.IH [OF Cons.prems(1) _ rest, of "[]" "coll @ [docs @ [d]]"] Cons.prems(1)
    obtain buf new where
      r: "ingest_loop rt (int b) ls [] (coll @ [docs @ [d]])
            = (None, buf, (coll @ [docs @ [d]]) @ new)"
      and c: "concat new @ buf = [] @ ds'"
      and n: "length new = (length ([]::document list) + length ds') div b"
      and m: "length buf = (length ([]::document list) + length ds') mod b"
      and a: "\<forall>batch \<in> set new. length batch = b"
      by auto
    have full: "length docs + length ds = b + length ds'"
      using ds True by simp
    have "ingest_loop rt (int b) (l # ls) docs coll = (None, buf, coll @ ((docs @ [d]) # new))"
      using r d True by (simp add: Let_def)
    moreover have "concat ((docs @ [d]) # new) @ buf = docs @ ds"
      using c ds by simp
    moreover have "length ((docs @ [d]) # new) = (length docs + length ds) div b"
      using n Cons.prems(1) unfolding full by simp
    moreover have "length buf = (length docs + length ds) mod b"
      using m unfolding full by simp
    moreover have "\<forall>batch \<in> set ((docs @ [d]) # new). length batch = b"
      using a True by simp
    ultimately show ?thesis by blast
  next
    case False
    with Cons.prems(2) have lt: "length (docs @ [d]) < b" by simp
    from Cons.IH [OF Cons.prems(1) lt rest, of coll]
    obtain buf new where
      r: "ingest_loop rt (int b) ls (docs @ [d]) coll = (None, buf, coll @ new)"
      and c: "concat new @ buf = (docs @ [d]) @ ds'"
      and n: "length new = (length (docs @ [d]) + length ds') div b"
      and m: "length buf = (length (docs @ [d]) + length ds') mod b"
      and a: "\<forall>batch \<in> set new. length batch = b"
      by auto
    have "ingest_loop rt (int b) (l # ls) docs coll = (None, buf, coll @ new)"
      using r d lt by (simp add: Let_def)
    then show ?thesis using c n m a ds by auto
  qed
qed

text \<open>
  So \<^verbatim>\<open>parse_and_insert\<close> on \<open>N\<close> lines that all normalize makes \<open>N div b\<close> calls of
  \<open>b\<close> documents each and writes the first \<open>N - N mod b\<close> documents.
\<close>

lemma parse_and_insert_batches:
  assumes "0 < b" and "map (normalize rt) lines = map Inr ds"
  shows "\<exists>new. parse_and_insert rt lines coll (int b) = (None, coll @ new)
      \<and> concat new = take (length ds - length ds mod b) ds
      \<and> length new = length ds div b
      \<and> (\<forall>batch \<in> set new. length batch = b)"
proof -
  from ingest_loop_batches [OF assms(1) _ assms(2), of "[]" coll] assms(1)
  obtain buf new where r: "ingest_loop rt (int b) lines [] coll = (None, buf, coll @ new)"
    and c: "concat new @ buf = ds" and n: "length new = length ds div b"
    and m: "length buf = length ds mod b" and a: "\<forall>batch \<in> set new. length batch = b"
    by auto
  have "length (concat new) = length ds - length ds mod b"
    using c m by (metis add_diff_cancel_right' length_append)
  then have "concat new = take (length ds - length ds mod b) ds"
    using c by (metis append_eq_conv_conj)
  then show ?thesis using r n a by (simp add: parse_and_insert_def)
qed

subsection \<open>The sample lines\<close>

lemma sample_empty_line:
  "normalize sample_rt ''{}'' =
     Inr [(''auctionId'', JStr ''NA''), (''campaignId'', JStr ''NA''),
          (''creativeId'', JStr ''NA''), (''adgroupId'', JStr ''NA''),
          (''userAgent'', JStr ''Others''), (''site'', JStr ''Others''),
          (''geo'', JStr ''Others''), (''exchange'', JStr ''Others''),
          (''price'', JNum 0), (''time'', JNum 0)]"
  by (simp add: normalize_def nested_document_def resolve_geo_def parse_price_def
      parse_time_def float_def str_replace_def sample_rt_def sample_decode_def
      sample_float_def)

lemma sample_a1_line:
  \<open>normalize sample_rt ''{"auctionId": "a1"}'' =
     Inr [(''auctionId'', JStr ''a1''), (''campaignId'', JStr ''NA''),
          (''creativeId'', JStr ''NA''), (''adgroupId'', JStr ''NA''),
          (''userAgent'', JStr ''Others''), (''site'', JStr ''Others''),
          (''geo'', JStr ''Others''), (''exchange'', JStr ''Others''),
          (''price'', JNum 0), (''time'', JNum 0)]\<close>
  by (simp add: normalize_def nested_document_def resolve_geo_def parse_price_def
      parse_time_def float_def str_replace_def sample_rt_def sample_decode_def
      sample_float_def)

subsection \<open>Batching\<close>

text \<open>
  Claim C1 (batching completeness) asks that \<open>N\<close> valid lines put \<open>N\<close> documents into
  the raw store, the last call carrying the partial batch. The function returns as soon
  as the loop ends, so the partial batch is never written. With three valid lines and a
  batch size of 2 the collection receives one call of two documents and the third
  document is lost; with one valid line and the default batch size of 1000 the
  collection receives nothing. (The general count is \<open>parse_and_insert_batches\<close>:
  \<open>N div b\<close> calls and \<open>N - N mod b\<close> documents.)
\<close>

theorem final_partial_batch_dropped:
  \<open>parse_and_insert sample_rt [''{}'', ''{"auctionId": "a1"}'', ''{}''] [] 2 =
     (None,
      [[[(''auctionId'', JStr ''NA''), (''campaignId'', JStr ''NA''),
         (''creativeId'', JStr ''NA''), (''adgroupId'', JStr ''NA''),
         (''userAgent'', JStr ''Others''), (''site'', JStr ''Others''),
         (''geo'', JStr ''Others''), (''exchange'', JStr ''Others''),
         (''price'', JNum 0), (''time'', JNum 0)],
        [(''auctionId'', JStr ''a1''), (''campaignId'', JStr ''NA''),
         (''creativeId'', JStr ''NA''), (''adgroupId'', JStr ''NA''),
         (''userAgent'', JStr ''Others''), (''site'', JStr ''Others''),
         (''geo'', JStr ''Others''), (''exchange'', JStr ''Others''),
         (''price'', JNum 0), (''time'', JNum 0)]]])
   \<and> length (contents (snd (parse_and_insert sample_rt
         [''{}'', ''{"auctionId": "a1"}'', ''{}''] [] 2))) = 2
   \<and> parse_and_insert sample_rt [''{}''] [] 1000 = (None, [])\<close>
  by (simp add: parse_and_insert_def sample_empty_line sample_a1_line contents_def)

subsection \<open>Lines that are skipped\<close>

text \<open>
  Claim C7 (skip on malformed envelope): a line that the JSON decoder rejects raises
  \<^verbatim>\<open>JSONDecodeError\<close>, which the loop catches. From any buffer and collection, the
  loop over the lines with that line among them ends with the same outcome, the same
  buffer and the same sequence of calls as the loop over the lines without it; so does
  \<^verbatim>\<open>parse_and_insert\<close>. The line adds no document, stops nothing, does not count
  toward the threshold and moves no batch boundary.
\<close>

theorem malformed_line_skipped:
  assumes "json_decode rt line = None"
  shows "normalize rt line = Inl JSONDecodeError
    \<and> ingest_loop rt B (xs @ line # ys) docs coll = ingest_loop rt B (xs @ ys) docs coll
    \<and> parse_and_insert rt (xs @ line # ys) coll B = parse_and_insert rt (xs @ ys) coll B"
proof -
  have n: "normalize rt line = Inl JSONDecodeError"
    using assms by (simp add: normalize_def)
  then show ?thesis
    by (simp add: parse_and_insert_def ingest_loop_skip)
qed

theorem malformed_line_skipped_witness:
  \<open>json_decode sample_rt ''not json'' = None
   \<and> normalize sample_rt ''not json'' = Inl JSONDecodeError
   \<and> parse_and_insert sample_rt ([''{}''] @ ''not json'' # [''{"auctionId": "a1"}'']) [] 2
       = parse_and_insert sample_rt ([''{}''] @ [''{"auctionId": "a1"}'']) [] 2\<close>
proof -
  have h: "json_decode sample_rt ''not json'' = None"
    by (simp add: sample_rt_def sample_decode_def envelope_def escape_def)
  show ?thesis
    using h malformed_line_skipped
      [OF h, of 2 "[''{}'']" \<open>[''{"auctionId": "a1"}'']\<close> "[]" "[]"]
    by simp
qed

end
